theory Spec2Isabelle
  imports Main "HOL-Library.Word"
begin

section \<open>The run command of k6 (run.go)\<close>

text \<open>
  The file under verification is \<^verbatim>\<open>run.go\<close>: the \<^verbatim>\<open>run\<close> and \<^verbatim>\<open>inspect\<close> commands of the
  load-testing tool. It resolves the source argument (\<^verbatim>\<open>getSrcData\<close>), builds a runner
  (\<^verbatim>\<open>makeRunner\<close>), parses the \<^verbatim>\<open>--out\<close> string (\<^verbatim>\<open>parseCollectorString\<close>,
  \<^verbatim>\<open>makeCollector\<close>), merges the options and runs the engine (\<^verbatim>\<open>actionRun\<close>).

  Everything the file calls in other packages (the Go standard library, the packages
  \<^verbatim>\<open>lib\<close>, \<^verbatim>\<open>js\<close>, \<^verbatim>\<open>simple\<close>, \<^verbatim>\<open>stats\<close>, \<^verbatim>\<open>yaml\<close>) is an input of the model: the record
  \<open>env\<close> below holds what each of these calls returns. The theorems hold for every such
  environment.
\<close>

subsection \<open>Data\<close>

text \<open>A Go \<^verbatim>\<open>[]byte\<close> and a Go \<^verbatim>\<open>string\<close> are both sequences of bytes.\<close>

type_synonym bytes = string

text \<open>
  A Go \<^verbatim>\<open>error\<close> value that is not nil. \<open>Err msg\<close> is an error made by \<^verbatim>\<open>errors.New(msg)\<close>
  or handed back by another package (known by its message only: such an error carries
  no exit code); \<open>ExitError msg code\<close> is \<^verbatim>\<open>cli.NewExitError(msg, code)\<close>.
\<close>

datatype error = Err string | ExitError string int

text \<open>\<^verbatim>\<open>lib.SourceData\<close>, as the struct literal of \<^verbatim>\<open>getSrcData\<close> fills it.\<close>

record SourceData =
  SrcData :: bytes
  Filename :: string
  SrcType :: string

text \<open>The part of \<^verbatim>\<open>url.URL\<close> that the file reads is the scheme.\<close>

record URL =
  Scheme :: string
  Host :: string
  Path :: string

text \<open>
  Modelled from the spec: the constants \<^verbatim>\<open>lib.TypeAuto\<close>, \<^verbatim>\<open>lib.TypeURL\<close> and \<^verbatim>\<open>lib.TypeJS\<close>
  of package \<^verbatim>\<open>lib\<close>, which is not part of this file. Their values are the three input
  types that the usage text of the \<^verbatim>\<open>--type\<close> flag lists.
\<close>

definition TypeAuto :: string where
  "TypeAuto = ''auto''"

definition TypeURL :: string where
  "TypeURL = ''url''"

definition TypeJS :: string where
  "TypeJS = ''js''"

text \<open>
  A nullable value of the \<^verbatim>\<open>null\<close> package (\<^verbatim>\<open>null.Bool\<close>, \<^verbatim>\<open>null.Int\<close>, \<^verbatim>\<open>null.String\<close>,
  \<^verbatim>\<open>null.Float\<close>): a value and the flag \<^verbatim>\<open>Valid\<close>.
\<close>

record 'a null =
  Value :: 'a
  Valid :: bool

text \<open>A Go \<^verbatim>\<open>int64\<close>; a \<^verbatim>\<open>float64\<close> is kept as its 64 bits, since the file only copies it.\<close>

type_synonym int64 = "64 word"

type_synonym float64 = "64 word"

text \<open>
  \<^verbatim>\<open>lib.Options\<close>: the eight fields that the struct literal of \<^verbatim>\<open>actionRun\<close> fills, and
  \<open>Thresholds\<close>, which the data model of the specification lists with them.
\<close>

record Options =
  Paused :: "bool null"
  VUs :: "int64 null"
  VUsMax :: "int64 null"
  Duration :: "string null"
  Linger :: "bool null"
  AbortOnTaint :: "bool null"
  Acceptance :: "float64 null"
  MaxRedirects :: "int64 null"
  Thresholds :: "(string \<times> string list) list null"

text \<open>
  The environment: what the calls into other packages return. The type variables are
  the runner \<open>'r\<close>, the JavaScript runtime \<open>'rt\<close>, its exports \<open>'x\<close>, the collector \<open>'c\<close>
  and the engine \<open>'e\<close>. An error of another package is its message. \<open>ApplyOptions\<close> is
  the runner after \<^verbatim>\<open>runner.ApplyOptions(opts)\<close>, which changes the runner in place.
\<close>

record ('r, 'rt, 'x, 'c, 'e) env =
  Stdin :: "string + bytes"
  ReadFile :: "string \<Rightarrow> string + bytes"
  TrimSpace :: "string \<Rightarrow> string"
  url_Parse :: "string \<Rightarrow> string + URL"
  simple_New :: "URL \<Rightarrow> string + 'r"
  js_New :: "string + 'rt"
  rt_Load :: "'rt \<Rightarrow> SourceData \<Rightarrow> string + 'x"
  js_NewRunner :: "'rt \<Rightarrow> 'x \<Rightarrow> string + 'r"
  GetOptions :: "'r \<Rightarrow> Options"
  ApplyOptions :: "'r \<Rightarrow> Options \<Rightarrow> 'r"
  yaml_Unmarshal :: "bytes \<Rightarrow> string + Options"
  influxdb_New :: "string \<Rightarrow> string + 'c"
  json_New :: "string \<Rightarrow> string + 'c"
  NewEngine :: "'r \<Rightarrow> string + 'e"
  Tainted :: "'e \<Rightarrow> 'c option \<Rightarrow> bool"

subsection \<open>Source resolution\<close>

text \<open>\<^verbatim>\<open>looksLikeURL\<close>: the trimmed text parses as a URL and the scheme is not empty.\<close>

definition looksLikeURL :: "('r, 'rt, 'x, 'c, 'e) env \<Rightarrow> bytes \<Rightarrow> bool" where
  "looksLikeURL env str =
     (case url_Parse env (TrimSpace env str) of
        Inl err \<Rightarrow> False
      | Inr u \<Rightarrow> Scheme u \<noteq> '''')"

text \<open>
  The end of \<^verbatim>\<open>getSrcData\<close> (from the comment "Now we should have some src data" on):
  a type that is still \<^verbatim>\<open>auto\<close> is detected from the data, and the triple is built.
\<close>

definition getSrcData_detect ::
  "('r, 'rt, 'x, 'c, 'e) env \<Rightarrow> bytes \<Rightarrow> string \<Rightarrow> string \<Rightarrow> SourceData" where
  "getSrcData_detect env srcdata srctype filename =
     \<lparr>SrcData = srcdata, Filename = filename,
      SrcType = (if srctype = TypeAuto
                 then (if looksLikeURL env srcdata then TypeURL else TypeJS)
                 else srctype)\<rparr>"

text \<open>The sentinel filename of source text that came from the command line.\<close>

definition cmdline :: string where
  "cmdline = ''[cmdline]''"

text \<open>
  \<^verbatim>\<open>getSrcData\<close>. The argument \<^verbatim>\<open>-\<close> reads standard input whatever the type is; otherwise
  the \<^verbatim>\<open>switch\<close> on the type decides, and a type that matches no case leaves
  the data empty and the filename equal to the argument.
\<close>

definition getSrcData ::
  "('r, 'rt, 'x, 'c, 'e) env \<Rightarrow> string \<Rightarrow> string \<Rightarrow> error + SourceData" where
  "getSrcData env arg t =
     (if arg = ''-'' then
        (case Stdin env of
           Inl err \<Rightarrow> Inl (Err err)
         | Inr srcdata \<Rightarrow> Inr (getSrcData_detect env srcdata t arg))
      else if t = TypeAuto then
        (if looksLikeURL env arg then Inr (getSrcData_detect env arg TypeURL cmdline)
         else (case ReadFile env arg of
                 Inl err \<Rightarrow> Inr (getSrcData_detect env arg TypeJS cmdline)
               | Inr srcdata \<Rightarrow> Inr (getSrcData_detect env srcdata t arg)))
      else if t = TypeURL then
        (if looksLikeURL env arg then Inr (getSrcData_detect env arg t cmdline)
         else (case ReadFile env arg of
                 Inl err \<Rightarrow> Inl (Err err)
               | Inr srcdata \<Rightarrow> Inr (getSrcData_detect env srcdata t arg)))
      else if t = TypeJS then
        (case ReadFile env arg of
           Inl err \<Rightarrow> Inr (getSrcData_detect env arg t cmdline)
         | Inr srcdata \<Rightarrow> Inr (getSrcData_detect env srcdata t arg))
      else Inr (getSrcData_detect env [] t arg))"

text \<open>
  The read of the file that an argument names. The comment in \<^verbatim>\<open>getSrcData\<close> has it:
  the special case name \<^verbatim>\<open>-\<close> always causes the data to be read from the file STDIN; any
  other name is a file of the file system.
\<close>

definition named_file :: "('r, 'rt, 'x, 'c, 'e) env \<Rightarrow> string \<Rightarrow> string + bytes" where
  "named_file env name = (if name = ''-'' then Stdin env else ReadFile env name)"

text \<open>\<^verbatim>\<open>makeRunner\<close>: the \<^verbatim>\<open>switch\<close> on the kind of the source data.\<close>

definition invalid_type :: error where
  "invalid_type = Err ''Invalid type specified, see --help''"

definition makeRunner ::
  "('r, 'rt, 'x, 'c, 'e) env \<Rightarrow> SourceData \<Rightarrow> error + 'r" where
  "makeRunner env srcdata =
     (if SrcType srcdata = '''' then Inl invalid_type
      else if SrcType srcdata = TypeURL then
        (case url_Parse env (TrimSpace env (SrcData srcdata)) of
           Inl err \<Rightarrow> Inl (Err ''Failed to parse URL'')
         | Inr u \<Rightarrow>
             if Scheme u = '''' then Inl (Err ''Failed to parse URL'')
             else (case simple_New env u of
                     Inl err \<Rightarrow> Inl (Err err)
                   | Inr r \<Rightarrow> Inr r))
      else if SrcType srcdata = TypeJS then
        (case js_New env of
           Inl err \<Rightarrow> Inl (Err err)
         | Inr rt \<Rightarrow>
             (case rt_Load env rt srcdata of
                Inl err \<Rightarrow> Inl (Err err)
              | Inr exports \<Rightarrow>
                  (case js_NewRunner env rt exports of
                     Inl err \<Rightarrow> Inl (Err err)
                   | Inr r \<Rightarrow> Inr r)))
      else Inl invalid_type)"

subsection \<open>Collector output strings\<close>

text \<open>
  \<^verbatim>\<open>strings.SplitN(s, sep, 2)\<close> for a separator of one byte: the text before the first
  separator and the text after it, or the whole text alone when it has no separator.
\<close>

definition SplitN_2 :: "string \<Rightarrow> char \<Rightarrow> string list" where
  "SplitN_2 s sep =
     (if sep \<in> set s
      then [takeWhile (\<lambda>c. c \<noteq> sep) s, tl (dropWhile (\<lambda>c. c \<noteq> sep) s)]
      else [s])"

text \<open>The message of \<^verbatim>\<open>parseCollectorString\<close>; it ends with \<^verbatim>\<open>'type=url'\<close> in single quotes.\<close>

definition malformed_output :: error where
  "malformed_output =
     Err (''Malformed output; must be in the form '' @ [CHR 0x27] @ ''type=url'' @ [CHR 0x27])"

definition parseCollectorString :: "string \<Rightarrow> error + (string \<times> string)" where
  "parseCollectorString s =
     (let parts = SplitN_2 s (CHR ''='') in
      if length parts \<noteq> 2 then Inl malformed_output
      else Inr (parts ! 0, parts ! 1))"

definition makeCollector :: "('r, 'rt, 'x, 'c, 'e) env \<Rightarrow> string \<Rightarrow> error + 'c" where
  "makeCollector env s =
     (case parseCollectorString s of
        Inl err \<Rightarrow> Inl err
      | Inr (t, p) \<Rightarrow>
          if t = ''influxdb'' then
            (case influxdb_New env p of Inl err \<Rightarrow> Inl (Err err) | Inr c \<Rightarrow> Inr c)
          else if t = ''json'' then
            (case json_New env p of Inl err \<Rightarrow> Inl (Err err) | Inr c \<Rightarrow> Inr c)
          else Inl (Err (''Unknown output type: '' @ t)))"

subsection \<open>Options\<close>

text \<open>
  Modelled from the spec: \<^verbatim>\<open>Options.Apply\<close> of package \<^verbatim>\<open>lib\<close>, which is not part of this
  file. The specification: "\<^verbatim>\<open>Apply(other)\<close> is field-wise: for each field, if
  \<^verbatim>\<open>other.field.valid\<close> is true, overwrite."
\<close>

definition Apply :: "Options \<Rightarrow> Options \<Rightarrow> Options" where
  "Apply opts other =
     \<lparr>Paused = (if Valid (Paused other) then Paused other else Paused opts),
      VUs = (if Valid (VUs other) then VUs other else VUs opts),
      VUsMax = (if Valid (VUsMax other) then VUsMax other else VUsMax opts),
      Duration = (if Valid (Duration other) then Duration other else Duration opts),
      Linger = (if Valid (Linger other) then Linger other else Linger opts),
      AbortOnTaint =
        (if Valid (AbortOnTaint other) then AbortOnTaint other else AbortOnTaint opts),
      Acceptance = (if Valid (Acceptance other) then Acceptance other else Acceptance opts),
      MaxRedirects =
        (if Valid (MaxRedirects other) then MaxRedirects other else MaxRedirects opts),
      Thresholds = (if Valid (Thresholds other) then Thresholds other else Thresholds opts)\<rparr>"

text \<open>
  Modelled from the spec: \<^verbatim>\<open>Options.SetAllValid\<close> of package \<^verbatim>\<open>lib\<close>, which is not part of
  this file. The specification: "\<^verbatim>\<open>SetAllValid(true)\<close> marks every field valid".
\<close>

definition SetAllValid :: "Options \<Rightarrow> bool \<Rightarrow> Options" where
  "SetAllValid opts b =
     \<lparr>Paused = (Paused opts)\<lparr>Valid := b\<rparr>,
      VUs = (VUs opts)\<lparr>Valid := b\<rparr>,
      VUsMax = (VUsMax opts)\<lparr>Valid := b\<rparr>,
      Duration = (Duration opts)\<lparr>Valid := b\<rparr>,
      Linger = (Linger opts)\<lparr>Valid := b\<rparr>,
      AbortOnTaint = (AbortOnTaint opts)\<lparr>Valid := b\<rparr>,
      Acceptance = (Acceptance opts)\<lparr>Valid := b\<rparr>,
      MaxRedirects = (MaxRedirects opts)\<lparr>Valid := b\<rparr>,
      Thresholds = (Thresholds opts)\<lparr>Valid := b\<rparr>\<rparr>"

subsection \<open>The run command\<close>

text \<open>
  What \<^verbatim>\<open>actionRun\<close> reads from the command line: the positional arguments, the flags
  \<^verbatim>\<open>--type\<close>, \<^verbatim>\<open>--out\<close> and \<^verbatim>\<open>--config\<close>, and for each option flag the nullable value
  that the helper \<^verbatim>\<open>cliBool\<close>, \<^verbatim>\<open>cliInt64\<close>, \<^verbatim>\<open>cliDuration\<close> or \<^verbatim>\<open>cliFloat64\<close> returns.
  The helpers are not part of this file, so their results are inputs; the comment in
  \<^verbatim>\<open>actionRun\<close> says what they are: a flag that was not given has its default as value
  and is not valid.
\<close>

record Context =
  Args :: "string list"
  flag_type :: string
  flag_out :: string
  flag_config :: "string list"
  cli_paused :: "bool null"
  cli_vus :: "int64 null"
  cli_max :: "int64 null"
  cli_duration :: "string null"
  cli_linger :: "bool null"
  cli_abort_on_taint :: "bool null"
  cli_acceptance :: "float64 null"
  cli_max_redirects :: "int64 null"

text \<open>
  The struct literal that collects the command line options. It names eight fields;
  \<open>Thresholds\<close> keeps the zero value.
\<close>

definition actionRun_cliOptions :: "Context \<Rightarrow> Options" where
  "actionRun_cliOptions cc =
     \<lparr>Paused = cli_paused cc,
      VUs = cli_vus cc,
      VUsMax = cli_max cc,
      Duration = cli_duration cc,
      Linger = cli_linger cc,
      AbortOnTaint = cli_abort_on_taint cc,
      Acceptance = cli_acceptance cc,
      MaxRedirects = cli_max_redirects cc,
      Thresholds = \<lparr>Value = [], Valid = False\<rparr>\<rparr>"

text \<open>
  The loop over the \<^verbatim>\<open>--config\<close> files: each file is read and parsed, and its options
  are applied to the options merged so far. A file that cannot be read or parsed ends
  the command with an exit error of code 1.
\<close>

fun actionRun_configs ::
  "('r, 'rt, 'x, 'c, 'e) env \<Rightarrow> Options \<Rightarrow> string list \<Rightarrow> error + Options" where
  "actionRun_configs env opts [] = Inr opts"
| "actionRun_configs env opts (filename # rest) =
     (case ReadFile env filename of
        Inl err \<Rightarrow> Inl (ExitError err 1)
      | Inr data \<Rightarrow>
          (case yaml_Unmarshal env data of
             Inl err \<Rightarrow> Inl (ExitError err 1)
           | Inr configOpts \<Rightarrow> actionRun_configs env (Apply opts configOpts) rest))"

text \<open>
  The two statements after the loop: a \<open>VUsMax\<close> that is not valid takes the value of
  \<open>VUs\<close>, then every field is marked valid.
\<close>

definition actionRun_defaults :: "Options \<Rightarrow> Options" where
  "actionRun_defaults opts =
     SetAllValid
       (if \<not> Valid (VUsMax opts)
        then opts\<lparr>VUsMax := (VUsMax opts)\<lparr>Value := Value (VUs opts)\<rparr>\<rparr>
        else opts)
       True"

text \<open>
  The first part of \<^verbatim>\<open>actionRun\<close>, up to the call of \<^verbatim>\<open>SetAllValid\<close>: the check of the
  number of arguments, the source data, the runner, and the merge of the options. It
  yields the runner and the options that the next statement hands to
  \<^verbatim>\<open>runner.ApplyOptions\<close>, or the error that \<^verbatim>\<open>actionRun\<close> returns.
\<close>

definition actionRun_options ::
  "('r, 'rt, 'x, 'c, 'e) env \<Rightarrow> Context \<Rightarrow> error + ('r \<times> Options)" where
  "actionRun_options env cc =
     (if length (Args cc) \<noteq> 1 then Inl (ExitError ''Wrong number of arguments!'' 1)
      else
        (case getSrcData env (Args cc ! 0) (flag_type cc) of
           Inl err \<Rightarrow> Inl err
         | Inr srcdata \<Rightarrow>
             (case makeRunner env srcdata of
                Inl err \<Rightarrow> Inl err
              | Inr runner \<Rightarrow>
                  (case actionRun_configs env
                          (Apply (actionRun_cliOptions cc) (GetOptions env runner))
                          (flag_config cc) of
                     Inl err \<Rightarrow> Inl err
                   | Inr opts \<Rightarrow> Inr (runner, actionRun_defaults opts)))))"

text \<open>
  The setup of \<^verbatim>\<open>actionRun\<close>, from the call of \<^verbatim>\<open>runner.ApplyOptions\<close> up to the engine: the
  merged options are handed to the runner; the collector is made only for an \<^verbatim>\<open>--out\<close>
  string that is not empty; the engine is made from the runner, which now holds the
  options, and the collector is attached to it (\<^verbatim>\<open>engine.Collector = collector\<close>). It
  yields the engine with its collector, or the error that \<^verbatim>\<open>actionRun\<close> returns.
\<close>

definition actionRun_setup ::
  "('r, 'rt, 'x, 'c, 'e) env \<Rightarrow> Context \<Rightarrow> error + ('e \<times> 'c option)" where
  "actionRun_setup env cc =
     (case actionRun_options env cc of
        Inl err \<Rightarrow> Inl err
      | Inr (runner, opts) \<Rightarrow>
          (let runner = ApplyOptions env runner opts in
           (case (if flag_out cc \<noteq> ''''
                  then (case makeCollector env (flag_out cc) of
                          Inl err \<Rightarrow> Inl err
                        | Inr c \<Rightarrow> Inr (Some c))
                  else Inr None) of
              Inl err \<Rightarrow> Inl err
            | Inr collector \<Rightarrow>
                (case NewEngine env runner of
                   Inl err \<Rightarrow> Inl (Err err)
                 | Inr engine \<Rightarrow> Inr (engine, collector)))))"

text \<open>
  \<^verbatim>\<open>actionRun\<close>: what it returns (\<open>None\<close> is nil). The engine runs in goroutines until
  its context is done or a signal arrives; of that part the model keeps what the last
  statement reads once the engine has shut down, the flag \<^verbatim>\<open>engine.Status.Tainted.Bool\<close>,
  as the input \<open>Tainted\<close> of the environment: it is given for the engine, which was made
  from the runner that holds the merged options, and for the collector attached to it.
  The banner, the progress bar and the summary are printed and do not change what is
  returned.
\<close>

definition actionRun :: "('r, 'rt, 'x, 'c, 'e) env \<Rightarrow> Context \<Rightarrow> error option" where
  "actionRun env cc =
     (case actionRun_setup env cc of
        Inl err \<Rightarrow> Some err
      | Inr (engine, collector) \<Rightarrow>
          if Tainted env engine collector then Some (ExitError [] 99) else None)"

text \<open>Every field of the options is marked valid.\<close>

definition all_valid :: "Options \<Rightarrow> bool" where
  "all_valid opts =
     (Valid (Paused opts) \<and> Valid (VUs opts) \<and> Valid (VUsMax opts) \<and> Valid (Duration opts) \<and>
      Valid (Linger opts) \<and> Valid (AbortOnTaint opts) \<and> Valid (Acceptance opts) \<and>
      Valid (MaxRedirects opts) \<and> Valid (Thresholds opts))"

subsection \<open>A sample environment\<close>

text \<open>
  A small concrete environment and command line, on which the theorems below are
  exercised. Standard input holds a URL. There are four files: a script, a file that
  holds a URL and two config files. The sample parser knows one URL, rejects a text
  that starts with a colon and finds no scheme in any other text. The runner made from
  a script declares 20 virtual users; the runner made from a URL declares nothing.
\<close>

definition Options_zero :: Options where
  "Options_zero =
     \<lparr>Paused = \<lparr>Value = False, Valid = False\<rparr>,
      VUs = \<lparr>Value = 0, Valid = False\<rparr>,
      VUsMax = \<lparr>Value = 0, Valid = False\<rparr>,
      Duration = \<lparr>Value = [], Valid = False\<rparr>,
      Linger = \<lparr>Value = False, Valid = False\<rparr>,
      AbortOnTaint = \<lparr>Value = False, Valid = False\<rparr>,
      Acceptance = \<lparr>Value = 0, Valid = False\<rparr>,
      MaxRedirects = \<lparr>Value = 0, Valid = False\<rparr>,
      Thresholds = \<lparr>Value = [], Valid = False\<rparr>\<rparr>"

definition sample_space :: "char \<Rightarrow> bool" where
  "sample_space c = (c = CHR '' '' \<or> c = CHR 0x09 \<or> c = CHR 0x0A \<or> c = CHR 0x0D)"

definition sample_TrimSpace :: "string \<Rightarrow> string" where
  "sample_TrimSpace s = rev (dropWhile sample_space (rev (dropWhile sample_space s)))"

definition sample_Parse :: "string \<Rightarrow> string + URL" where
  "sample_Parse s =
     (if s = ''http://example.test/''
      then Inr \<lparr>Scheme = ''http'', Host = ''example.test'', Path = ''/''\<rparr>
      else if take 1 s = '':'' then Inl ''missing protocol scheme''
      else Inr \<lparr>Scheme = [], Host = [], Path = s\<rparr>)"

definition sample_ReadFile :: "string \<Rightarrow> string + bytes" where
  "sample_ReadFile name =
     (if name = ''script.js'' then Inr ''export default function() {}''
      else if name = ''target.txt'' then Inr (''http://example.test/'' @ [CHR 0x0A])
      else if name = ''vus7.yml'' then Inr ''vus: 7''
      else if name = ''max3.yml'' then Inr ''vusMax: 3''
      else Inl ''no such file or directory'')"

definition sample_Unmarshal :: "bytes \<Rightarrow> string + Options" where
  "sample_Unmarshal data =
     (if data = ''vus: 7'' then Inr (Options_zero\<lparr>VUs := \<lparr>Value = 7, Valid = True\<rparr>\<rparr>)
      else if data = ''vusMax: 3''
      then Inr (Options_zero\<lparr>VUsMax := \<lparr>Value = 3, Valid = True\<rparr>\<rparr>)
      else Inl ''cannot unmarshal'')"

definition sample_env :: "(string, unit, unit, string, string) env" where
  "sample_env =
     \<lparr>Stdin = Inr ''http://example.test/'',
      ReadFile = sample_ReadFile,
      TrimSpace = sample_TrimSpace,
      url_Parse = sample_Parse,
      simple_New = (\<lambda>u. Inr ''simple''),
      js_New = Inr (),
      rt_Load = (\<lambda>rt srcdata. Inr ()),
      js_NewRunner = (\<lambda>rt exports. Inr ''js''),
      GetOptions =
        (\<lambda>r. if r = ''js'' then Options_zero\<lparr>VUs := \<lparr>Value = 20, Valid = True\<rparr>\<rparr>
             else Options_zero),
      ApplyOptions = (\<lambda>r opts. r),
      yaml_Unmarshal = sample_Unmarshal,
      influxdb_New = (\<lambda>p. Inr (''influxdb collector for '' @ p)),
      json_New = (\<lambda>p. Inr (''json collector for '' @ p)),
      NewEngine = (\<lambda>r. Inr (''engine of '' @ r)),
      Tainted = (\<lambda>e collector. False)\<rparr>"

text \<open>
  The command line \<^verbatim>\<open>run http://example.test/\<close> with no flag given: every option has its
  default as value and is not valid.
\<close>

definition sample_cc :: Context where
  "sample_cc =
     \<lparr>Args = [''http://example.test/''],
      flag_type = ''auto'',
      flag_out = [],
      flag_config = [],
      cli_paused = \<lparr>Value = False, Valid = False\<rparr>,
      cli_vus = \<lparr>Value = 10, Valid = False\<rparr>,
      cli_max = \<lparr>Value = 0, Valid = False\<rparr>,
      cli_duration = \<lparr>Value = ''10s'', Valid = False\<rparr>,
      cli_linger = \<lparr>Value = False, Valid = False\<rparr>,
      cli_abort_on_taint = \<lparr>Value = False, Valid = False\<rparr>,
      cli_acceptance = \<lparr>Value = 0, Valid = False\<rparr>,
      cli_max_redirects = \<lparr>Value = 0, Valid = False\<rparr>\<rparr>"

section \<open>Properties\<close>

subsection \<open>Facts about the sample environment\<close>

lemmas sample_defs = sample_env_def sample_cc_def sample_ReadFile_def sample_Parse_def
  sample_TrimSpace_def sample_space_def sample_Unmarshal_def Options_zero_def

lemmas type_defs = TypeAuto_def TypeURL_def TypeJS_def cmdline_def

lemmas run_defs = actionRun_def actionRun_setup_def actionRun_options_def
  actionRun_defaults_def actionRun_cliOptions_def Apply_def SetAllValid_def getSrcData_def
  getSrcData_detect_def looksLikeURL_def makeRunner_def

lemma sample_looks_url: "looksLikeURL sample_env ''http://example.test/''"
  by (simp add: looksLikeURL_def sample_defs)

lemma sample_looks_url_nl: "looksLikeURL sample_env (''http://example.test/'' @ [CHR 0x0A])"
  by (simp add: looksLikeURL_def sample_defs)

lemma sample_looks_code: "\<not> looksLikeURL sample_env ''1+1''"
  by (simp add: looksLikeURL_def sample_defs)

lemma sample_looks_target: "\<not> looksLikeURL sample_env ''target.txt''"
  by (simp add: looksLikeURL_def sample_defs)

lemma sample_looks_script: "\<not> looksLikeURL sample_env ''script.js''"
  by (simp add: looksLikeURL_def sample_defs)

lemma sample_read_code: "ReadFile sample_env ''1+1'' = Inl ''no such file or directory''"
  by (simp add: sample_defs)

lemma sample_read_target:
  "ReadFile sample_env ''target.txt'' = Inr (''http://example.test/'' @ [CHR 0x0A])"
  by (simp add: sample_defs)

lemma sample_read_script:
  "ReadFile sample_env ''script.js'' = Inr ''export default function() {}''"
  by (simp add: sample_defs)

lemma sample_read_missing: "ReadFile sample_env ''missing.txt'' = Inl ''no such file or directory''"
  by (simp add: sample_defs)

lemma sample_looks_missing: "\<not> looksLikeURL sample_env ''missing.txt''"
  by (simp add: looksLikeURL_def sample_defs)

lemma sample_stdin: "Stdin sample_env = Inr ''http://example.test/''"
  by (simp add: sample_defs)

lemma sample_looks_dash: "\<not> looksLikeURL sample_env ''-''"
  by (simp add: looksLikeURL_def sample_defs)

subsection \<open>Source resolution\<close>

text \<open>
  Claim C2. With the type \<^verbatim>\<open>auto\<close> and an argument other than \<^verbatim>\<open>-\<close>: an argument that
  parses as a URL with a scheme that is not empty gives the kind \<^verbatim>\<open>url\<close> with the
  argument as content; otherwise the argument is read as a file; when the read fails,
  the argument itself is the content, an inline script of kind \<^verbatim>\<open>js\<close>; when the read
  succeeds, the content of the file is looked at with the same test and the kind is
  \<^verbatim>\<open>url\<close> or \<^verbatim>\<open>js\<close> accordingly. The same test is applied to what was read from standard
  input (the argument \<^verbatim>\<open>-\<close>).
\<close>

theorem getSrcData_auto:
  "(arg \<noteq> ''-'' \<and> looksLikeURL env arg \<longrightarrow>
      getSrcData env arg TypeAuto =
        Inr \<lparr>SrcData = arg, Filename = cmdline, SrcType = TypeURL\<rparr>) \<and>
   (arg \<noteq> ''-'' \<and> \<not> looksLikeURL env arg \<and> ReadFile env arg = Inl err \<longrightarrow>
      getSrcData env arg TypeAuto =
        Inr \<lparr>SrcData = arg, Filename = cmdline, SrcType = TypeJS\<rparr>) \<and>
   (arg \<noteq> ''-'' \<and> \<not> looksLikeURL env arg \<and> ReadFile env arg = Inr content \<longrightarrow>
      getSrcData env arg TypeAuto =
        Inr \<lparr>SrcData = content, Filename = arg,
             SrcType = (if looksLikeURL env content then TypeURL else TypeJS)\<rparr>) \<and>
   (Stdin env = Inr input \<longrightarrow>
      getSrcData env ''-'' TypeAuto =
        Inr \<lparr>SrcData = input, Filename = ''-'',
             SrcType = (if looksLikeURL env input then TypeURL else TypeJS)\<rparr>)"
  by (simp add: getSrcData_def getSrcData_detect_def type_defs)

theorem getSrcData_auto_witness:
  "getSrcData sample_env ''http://example.test/'' TypeAuto =
     Inr \<lparr>SrcData = ''http://example.test/'', Filename = cmdline, SrcType = TypeURL\<rparr> \<and>
   getSrcData sample_env ''1+1'' TypeAuto =
     Inr \<lparr>SrcData = ''1+1'', Filename = cmdline, SrcType = TypeJS\<rparr> \<and>
   getSrcData sample_env ''target.txt'' TypeAuto =
     Inr \<lparr>SrcData = ''http://example.test/'' @ [CHR 0x0A], Filename = ''target.txt'',
          SrcType = TypeURL\<rparr> \<and>
   getSrcData sample_env ''script.js'' TypeAuto =
     Inr \<lparr>SrcData = ''export default function() {}'', Filename = ''script.js'',
          SrcType = TypeJS\<rparr> \<and>
   getSrcData sample_env ''-'' TypeAuto =
     Inr \<lparr>SrcData = ''http://example.test/'', Filename = ''-'', SrcType = TypeURL\<rparr>"
proof -
  have script: "\<not> looksLikeURL sample_env ''export default function() {}''"
    by (simp add: looksLikeURL_def sample_defs)
  show ?thesis
    using getSrcData_auto [of "''http://example.test/''" sample_env]
      getSrcData_auto [of "''1+1''" sample_env "''no such file or directory''"]
      getSrcData_auto [of "''target.txt''" sample_env _ "''http://example.test/'' @ [CHR 0x0A]"]
      getSrcData_auto [of "''script.js''" sample_env _ "''export default function() {}''"]
      getSrcData_auto [of _ sample_env _ _ "''http://example.test/''"]
      sample_looks_url sample_looks_url_nl sample_looks_code sample_looks_target
      sample_looks_script sample_read_code sample_read_target sample_read_script
      sample_stdin script
    by simp
qed

text \<open>
  Claim C4. With the type \<^verbatim>\<open>url\<close>, for every argument: an argument that parses as a URL
  with a scheme that is not empty is the content itself, of kind \<^verbatim>\<open>url\<close>; otherwise the
  content is that of the file named by the argument, and a failed read of that file is
  an error. The file named by \<^verbatim>\<open>-\<close> is standard input, in which name \<^verbatim>\<open>url.Parse\<close> finds no
  scheme (the assumption of the theorem on the parser, which is not part of this file).
  The content must hold a URL: \<^verbatim>\<open>makeRunner\<close> fails with "Failed to parse URL" on source
  data of kind \<^verbatim>\<open>url\<close> whose content does not parse as a URL with a scheme.
\<close>

theorem getSrcData_url:
  assumes "\<not> looksLikeURL env ''-''"
  shows
  "(looksLikeURL env arg \<longrightarrow>
      getSrcData env arg TypeURL =
        Inr \<lparr>SrcData = arg, Filename = cmdline, SrcType = TypeURL\<rparr>) \<and>
   (\<not> looksLikeURL env arg \<and> named_file env arg = Inr content \<longrightarrow>
      getSrcData env arg TypeURL =
        Inr \<lparr>SrcData = content, Filename = arg, SrcType = TypeURL\<rparr>) \<and>
   (\<not> looksLikeURL env arg \<and> named_file env arg = Inl err \<longrightarrow>
      getSrcData env arg TypeURL = Inl (Err err)) \<and>
   (SrcType srcdata = TypeURL \<and> \<not> looksLikeURL env (SrcData srcdata) \<longrightarrow>
      makeRunner env srcdata = Inl (Err ''Failed to parse URL''))"
proof -
  have url: "looksLikeURL env arg \<Longrightarrow>
      getSrcData env arg TypeURL =
        Inr \<lparr>SrcData = arg, Filename = cmdline, SrcType = TypeURL\<rparr>"
    using assms by (auto simp add: getSrcData_def getSrcData_detect_def type_defs)
  have "file": "named_file env arg = Inr content \<Longrightarrow> \<not> looksLikeURL env arg \<Longrightarrow>
      getSrcData env arg TypeURL =
        Inr \<lparr>SrcData = content, Filename = arg, SrcType = TypeURL\<rparr>"
    by (auto simp add: getSrcData_def getSrcData_detect_def named_file_def type_defs
        split: if_splits)
  have failed: "named_file env arg = Inl err \<Longrightarrow> \<not> looksLikeURL env arg \<Longrightarrow>
      getSrcData env arg TypeURL = Inl (Err err)"
    by (auto simp add: getSrcData_def named_file_def type_defs split: if_splits)
  have parse: "SrcType srcdata = TypeURL \<Longrightarrow> \<not> looksLikeURL env (SrcData srcdata) \<Longrightarrow>
      makeRunner env srcdata = Inl (Err ''Failed to parse URL'')"
    by (auto simp add: makeRunner_def looksLikeURL_def type_defs split: sum.splits)
  from url "file" failed parse show ?thesis
    by blast
qed

theorem getSrcData_url_witness:
  "\<not> looksLikeURL sample_env ''-'' \<and>
   getSrcData sample_env ''http://example.test/'' TypeURL =
     Inr \<lparr>SrcData = ''http://example.test/'', Filename = cmdline, SrcType = TypeURL\<rparr> \<and>
   getSrcData sample_env ''target.txt'' TypeURL =
     Inr \<lparr>SrcData = ''http://example.test/'' @ [CHR 0x0A], Filename = ''target.txt'',
          SrcType = TypeURL\<rparr> \<and>
   getSrcData sample_env ''missing.txt'' TypeURL = Inl (Err ''no such file or directory'') \<and>
   getSrcData sample_env ''-'' TypeURL =
     Inr \<lparr>SrcData = ''http://example.test/'', Filename = ''-'', SrcType = TypeURL\<rparr> \<and>
   getSrcData (sample_env\<lparr>Stdin := Inl ''bad file descriptor''\<rparr>) ''-'' TypeURL =
     Inl (Err ''bad file descriptor'') \<and>
   makeRunner sample_env \<lparr>SrcData = ''1+1'', Filename = ''code.txt'', SrcType = TypeURL\<rparr> =
     Inl (Err ''Failed to parse URL'')"
proof -
  have dash: "\<not> looksLikeURL (sample_env\<lparr>Stdin := Inl ''bad file descriptor''\<rparr>) ''-''"
    by (simp add: looksLikeURL_def sample_defs)
  have target: "named_file sample_env ''target.txt'' = Inr (''http://example.test/'' @ [CHR 0x0A])"
    by (simp add: named_file_def sample_defs)
  have missing: "named_file sample_env ''missing.txt'' = Inl ''no such file or directory''"
    by (simp add: named_file_def sample_defs)
  have stdin: "named_file sample_env ''-'' = Inr ''http://example.test/''"
    by (simp add: named_file_def sample_defs)
  have closed: "named_file (sample_env\<lparr>Stdin := Inl ''bad file descriptor''\<rparr>) ''-'' =
      Inl ''bad file descriptor''"
    by (simp add: named_file_def)
  show ?thesis
    using getSrcData_url [OF sample_looks_dash, where arg = "''http://example.test/''"]
      getSrcData_url [OF sample_looks_dash, where arg = "''target.txt''"
        and content = "''http://example.test/'' @ [CHR 0x0A]"]
      getSrcData_url [OF sample_looks_dash, where arg = "''missing.txt''"
        and err = "''no such file or directory''"]
      getSrcData_url [OF sample_looks_dash, where arg = "''-''"
        and content = "''http://example.test/''"]
      getSrcData_url [OF dash, where arg = "''-''" and err = "''bad file descriptor''"]
      getSrcData_url [OF sample_looks_dash, where
        srcdata = "\<lparr>SrcData = ''1+1'', Filename = ''code.txt'', SrcType = TypeURL\<rparr>"]
      sample_looks_dash dash sample_looks_url sample_looks_target sample_looks_missing
      sample_looks_code target missing stdin closed
    by simp
qed

text \<open>
  Claim C5, as stated, at the argument \<^verbatim>\<open>-\<close>: with the type \<^verbatim>\<open>js\<close>, a failed read of
  standard input is returned as an error; and when standard input can be read, the
  content comes from it, not from a file named \<^verbatim>\<open>-\<close> and not from the argument.
\<close>

theorem getSrcData_js_counterexample:
  "getSrcData (sample_env\<lparr>Stdin := Inl ''bad file descriptor''\<rparr>) ''-'' TypeJS =
     Inl (Err ''bad file descriptor'') \<and>
   ReadFile sample_env ''-'' = Inl ''no such file or directory'' \<and>
   getSrcData sample_env ''-'' TypeJS =
     Inr \<lparr>SrcData = ''http://example.test/'', Filename = ''-'', SrcType = TypeJS\<rparr>"
  by (simp add: getSrcData_def getSrcData_detect_def sample_defs type_defs)

text \<open>
  Claim C5, amended. With the type \<^verbatim>\<open>js\<close> and an argument other than \<^verbatim>\<open>-\<close>: the
  argument is first read as a file; when the read fails, the argument itself is the
  inline script, under the sentinel filename \<^verbatim>\<open>[cmdline]\<close>; in both cases no error is
  returned. The argument \<^verbatim>\<open>-\<close> reads standard input instead, and a failed read of
  standard input is an error.
\<close>

theorem getSrcData_js:
  "(arg \<noteq> ''-'' \<and> ReadFile env arg = Inr content \<longrightarrow>
      getSrcData env arg TypeJS =
        Inr \<lparr>SrcData = content, Filename = arg, SrcType = TypeJS\<rparr>) \<and>
   (arg \<noteq> ''-'' \<and> ReadFile env arg = Inl err \<longrightarrow>
      getSrcData env arg TypeJS =
        Inr \<lparr>SrcData = arg, Filename = cmdline, SrcType = TypeJS\<rparr>) \<and>
   (arg \<noteq> ''-'' \<longrightarrow> (\<exists>srcdata. getSrcData env arg TypeJS = Inr srcdata)) \<and>
   (Stdin env = Inr input \<longrightarrow>
      getSrcData env ''-'' TypeJS =
        Inr \<lparr>SrcData = input, Filename = ''-'', SrcType = TypeJS\<rparr>) \<and>
   (Stdin env = Inl err \<longrightarrow> getSrcData env ''-'' TypeJS = Inl (Err err))"
  by (auto simp add: getSrcData_def getSrcData_detect_def type_defs split: sum.splits)

theorem getSrcData_js_witness:
  "getSrcData sample_env ''script.js'' TypeJS =
     Inr \<lparr>SrcData = ''export default function() {}'', Filename = ''script.js'',
          SrcType = TypeJS\<rparr> \<and>
   getSrcData sample_env ''1+1'' TypeJS =
     Inr \<lparr>SrcData = ''1+1'', Filename = cmdline, SrcType = TypeJS\<rparr> \<and>
   (\<exists>srcdata. getSrcData sample_env ''http://example.test/'' TypeJS = Inr srcdata) \<and>
   getSrcData sample_env ''-'' TypeJS =
     Inr \<lparr>SrcData = ''http://example.test/'', Filename = ''-'', SrcType = TypeJS\<rparr> \<and>
   getSrcData (sample_env\<lparr>Stdin := Inl ''bad file descriptor''\<rparr>) ''-'' TypeJS =
     Inl (Err ''bad file descriptor'')"
  using getSrcData_js [of "''script.js''" sample_env "''export default function() {}''"]
    getSrcData_js [of "''1+1''" sample_env _ "''no such file or directory''"]
    getSrcData_js [of "''http://example.test/''" sample_env]
    getSrcData_js [of _ sample_env _ _ "''http://example.test/''"]
    getSrcData_js [of _ "sample_env\<lparr>Stdin := Inl ''bad file descriptor''\<rparr>"
      _ "''bad file descriptor''"]
    sample_read_script sample_read_code sample_stdin
  by simp

text \<open>
  Claim C9. For an argument other than \<^verbatim>\<open>-\<close> and the type \<^verbatim>\<open>auto\<close> or \<^verbatim>\<open>js\<close>,
  \<^verbatim>\<open>getSrcData\<close> returns no error; when the file cannot be read, the argument itself is
  the source text, under the sentinel filename. An error of \<^verbatim>\<open>getSrcData\<close> is either a
  failed read of standard input (argument \<^verbatim>\<open>-\<close>) or, for the type \<^verbatim>\<open>url\<close>, a failed read
  of the file named by an argument that does not parse as a URL.
\<close>

theorem getSrcData_no_error:
  "(arg \<noteq> ''-'' \<and> (t = TypeAuto \<or> t = TypeJS) \<longrightarrow>
      (\<exists>srcdata. getSrcData env arg t = Inr srcdata)) \<and>
   (arg \<noteq> ''-'' \<and> (t = TypeAuto \<or> t = TypeJS) \<and> ReadFile env arg = Inl msg \<longrightarrow>
      (\<exists>srcdata. getSrcData env arg t = Inr srcdata \<and> SrcData srcdata = arg \<and>
         Filename srcdata = cmdline)) \<and>
   (getSrcData env arg t = Inl e \<longrightarrow>
      (arg = ''-'' \<and> (\<exists>m. Stdin env = Inl m \<and> e = Err m)) \<or>
      (arg \<noteq> ''-'' \<and> t = TypeURL \<and> \<not> looksLikeURL env arg \<and>
         (\<exists>m. ReadFile env arg = Inl m \<and> e = Err m)))"
  by (auto simp add: getSrcData_def getSrcData_detect_def type_defs
      split: sum.splits if_splits)

theorem getSrcData_no_error_witness:
  "(\<exists>srcdata. getSrcData sample_env ''script.js'' TypeAuto = Inr srcdata) \<and>
   (\<exists>srcdata. getSrcData sample_env ''1+1'' TypeJS = Inr srcdata \<and>
      SrcData srcdata = ''1+1'' \<and> Filename srcdata = cmdline) \<and>
   getSrcData sample_env ''missing.txt'' TypeURL = Inl (Err ''no such file or directory'') \<and>
   ReadFile sample_env ''missing.txt'' = Inl ''no such file or directory''"
proof -
  have failing:
    "getSrcData sample_env ''missing.txt'' TypeURL = Inl (Err ''no such file or directory'')"
    by (simp add: getSrcData_def looksLikeURL_def sample_defs type_defs)
  show ?thesis
    using getSrcData_no_error [of "''script.js''" TypeAuto sample_env]
      getSrcData_no_error [of "''1+1''" TypeJS sample_env "''no such file or directory''"]
      getSrcData_no_error [of "''missing.txt''" TypeURL sample_env _
        "Err ''no such file or directory''"]
      sample_read_code failing
    by auto
qed

text \<open>
  Claim C10. For a type that is none of \<^verbatim>\<open>auto\<close>, \<^verbatim>\<open>url\<close>, \<^verbatim>\<open>js\<close> and an argument other than
  \<^verbatim>\<open>-\<close>, \<^verbatim>\<open>getSrcData\<close> succeeds with empty source bytes, the argument as filename and the
  type handed through unchanged. \<^verbatim>\<open>makeRunner\<close> is what rejects it: it returns the
  invalid-type error for every kind other than \<^verbatim>\<open>url\<close> and \<^verbatim>\<open>js\<close>.
\<close>

theorem invalid_type_rejected_by_makeRunner:
  "(t \<noteq> TypeAuto \<and> t \<noteq> TypeURL \<and> t \<noteq> TypeJS \<and> arg \<noteq> ''-'' \<longrightarrow>
      getSrcData env arg t = Inr \<lparr>SrcData = [], Filename = arg, SrcType = t\<rparr>) \<and>
   (SrcType srcdata \<noteq> TypeURL \<and> SrcType srcdata \<noteq> TypeJS \<longrightarrow>
      makeRunner env srcdata = Inl (Err ''Invalid type specified, see --help''))"
  by (simp add: getSrcData_def getSrcData_detect_def makeRunner_def invalid_type_def)

theorem invalid_type_rejected_by_makeRunner_witness:
  "getSrcData sample_env ''script.js'' ''yaml'' =
     Inr \<lparr>SrcData = [], Filename = ''script.js'', SrcType = ''yaml''\<rparr> \<and>
   makeRunner sample_env \<lparr>SrcData = [], Filename = ''script.js'', SrcType = ''yaml''\<rparr> =
     Inl (Err ''Invalid type specified, see --help'')"
  using invalid_type_rejected_by_makeRunner [of "''yaml''" "''script.js''" sample_env
      "\<lparr>SrcData = [], Filename = ''script.js'', SrcType = ''yaml''\<rparr>"]
  by (simp add: type_defs)

subsection \<open>Collector output strings\<close>








subsection \<open>The merge of the options\<close>

lemma actionRun_defaults_fields:
  "Value (Paused (actionRun_defaults m)) = Value (Paused m)"
  "Value (VUs (actionRun_defaults m)) = Value (VUs m)"
  "Value (VUsMax (actionRun_defaults m)) =
     (if Valid (VUsMax m) then Value (VUsMax m) else Value (VUs m))"
  "Value (Duration (actionRun_defaults m)) = Value (Duration m)"
  "Value (Linger (actionRun_defaults m)) = Value (Linger m)"
  "Value (AbortOnTaint (actionRun_defaults m)) = Value (AbortOnTaint m)"
  "Value (Acceptance (actionRun_defaults m)) = Value (Acceptance m)"
  "Value (MaxRedirects (actionRun_defaults m)) = Value (MaxRedirects m)"
  "Value (Thresholds (actionRun_defaults m)) = Value (Thresholds m)"
  by (simp_all add: actionRun_defaults_def SetAllValid_def)

lemma actionRun_defaults_all_valid: "all_valid (actionRun_defaults m)"
  by (simp add: actionRun_defaults_def SetAllValid_def all_valid_def)

lemma actionRun_options_Inr:
  assumes "actionRun_options env cc = Inr (runner, opts)"
  shows "\<exists>merged.
     actionRun_configs env (Apply (actionRun_cliOptions cc) (GetOptions env runner))
       (flag_config cc) = Inr merged \<and>
     opts = actionRun_defaults merged"
  using assms by (auto simp add: actionRun_options_def split: if_splits sum.splits)

text \<open>
  Claim C1, on two command lines that give \<^verbatim>\<open>--vus 5\<close>. With a script whose runner
  declares 20 virtual users, the options handed to the runner carry 20; with a config
  file that sets 7, they carry 7. \<^verbatim>\<open>actionRun\<close> starts from the options of the command
  line and applies the options of the runner and then each config file on top of
  them, so a flag that was given is overridden by the script and by a config file.
\<close>

theorem cli_flag_overridden:
  "actionRun_options sample_env
     (sample_cc\<lparr>Args := [''script.js''], cli_vus := \<lparr>Value = 5, Valid = True\<rparr>\<rparr>) =
     Inr (''js'',
       \<lparr>Paused = \<lparr>Value = False, Valid = True\<rparr>,
        VUs = \<lparr>Value = 20, Valid = True\<rparr>,
        VUsMax = \<lparr>Value = 20, Valid = True\<rparr>,
        Duration = \<lparr>Value = ''10s'', Valid = True\<rparr>,
        Linger = \<lparr>Value = False, Valid = True\<rparr>,
        AbortOnTaint = \<lparr>Value = False, Valid = True\<rparr>,
        Acceptance = \<lparr>Value = 0, Valid = True\<rparr>,
        MaxRedirects = \<lparr>Value = 0, Valid = True\<rparr>,
        Thresholds = \<lparr>Value = [], Valid = True\<rparr>\<rparr>) \<and>
   actionRun_options sample_env
     (sample_cc\<lparr>flag_config := [''vus7.yml''], cli_vus := \<lparr>Value = 5, Valid = True\<rparr>\<rparr>) =
     Inr (''simple'',
       \<lparr>Paused = \<lparr>Value = False, Valid = True\<rparr>,
        VUs = \<lparr>Value = 7, Valid = True\<rparr>,
        VUsMax = \<lparr>Value = 7, Valid = True\<rparr>,
        Duration = \<lparr>Value = ''10s'', Valid = True\<rparr>,
        Linger = \<lparr>Value = False, Valid = True\<rparr>,
        AbortOnTaint = \<lparr>Value = False, Valid = True\<rparr>,
        Acceptance = \<lparr>Value = 0, Valid = True\<rparr>,
        MaxRedirects = \<lparr>Value = 0, Valid = True\<rparr>,
        Thresholds = \<lparr>Value = [], Valid = True\<rparr>\<rparr>)"
  by (simp add: run_defs sample_defs type_defs)

text \<open>
  Claim C7, as stated, on the command line \<^verbatim>\<open>--vus 10 --max 5\<close>: after the merge, \<open>VUs\<close>
  is 10 and \<open>VUsMax\<close> is 5.
\<close>

theorem vusmax_below_vus_counterexample:
  "actionRun_options sample_env
     (sample_cc\<lparr>cli_vus := \<lparr>Value = 10, Valid = True\<rparr>,
        cli_max := \<lparr>Value = 5, Valid = True\<rparr>\<rparr>) =
     Inr (''simple'',
       \<lparr>Paused = \<lparr>Value = False, Valid = True\<rparr>,
        VUs = \<lparr>Value = 10, Valid = True\<rparr>,
        VUsMax = \<lparr>Value = 5, Valid = True\<rparr>,
        Duration = \<lparr>Value = ''10s'', Valid = True\<rparr>,
        Linger = \<lparr>Value = False, Valid = True\<rparr>,
        AbortOnTaint = \<lparr>Value = False, Valid = True\<rparr>,
        Acceptance = \<lparr>Value = 0, Valid = True\<rparr>,
        MaxRedirects = \<lparr>Value = 0, Valid = True\<rparr>,
        Thresholds = \<lparr>Value = [], Valid = True\<rparr>\<rparr>) \<and>
   sint (5 :: int64) < sint (10 :: int64)"
  by (simp add: run_defs sample_defs type_defs)

text \<open>
  Claim C7, amended. If \<open>VUsMax\<close> is still not valid after the merge, it is given the
  value of \<open>VUs\<close> before all fields are marked valid, so that \<open>VUsMax\<close> equals \<open>VUs\<close>. A
  \<open>VUsMax\<close> that some layer has set keeps its value, whatever \<open>VUs\<close> is; so \<open>VUsMax\<close> is
  at least \<open>VUs\<close> (as signed 64-bit integers) exactly when \<open>VUsMax\<close> was not valid after
  the merge or the merged values are already in that order. In the end every field is
  valid.
\<close>

theorem vusmax_default:
  assumes "actionRun_options env cc = Inr (runner, opts)"
  shows "\<exists>merged.
     actionRun_configs env (Apply (actionRun_cliOptions cc) (GetOptions env runner))
       (flag_config cc) = Inr merged \<and>
     Value (VUs opts) = Value (VUs merged) \<and>
     Value (VUsMax opts) =
       (if Valid (VUsMax merged) then Value (VUsMax merged) else Value (VUs merged)) \<and>
     all_valid opts \<and>
     (sint (Value (VUs opts)) \<le> sint (Value (VUsMax opts))) =
       (\<not> Valid (VUsMax merged) \<or> sint (Value (VUs merged)) \<le> sint (Value (VUsMax merged)))"
proof -
  from actionRun_options_Inr [OF assms] obtain merged where
    cfg: "actionRun_configs env (Apply (actionRun_cliOptions cc) (GetOptions env runner))
       (flag_config cc) = Inr merged" and
    opts: "opts = actionRun_defaults merged"
    by blast
  have "Value (VUs opts) = Value (VUs merged)"
    and "Value (VUsMax opts) =
       (if Valid (VUsMax merged) then Value (VUsMax merged) else Value (VUs merged))"
    and "all_valid opts"
    unfolding opts by (simp_all add: actionRun_defaults_fields actionRun_defaults_all_valid)
  with cfg show ?thesis by auto
qed

theorem vusmax_default_witness:
  "actionRun_options sample_env sample_cc =
     Inr (''simple'',
       \<lparr>Paused = \<lparr>Value = False, Valid = True\<rparr>,
        VUs = \<lparr>Value = 10, Valid = True\<rparr>,
        VUsMax = \<lparr>Value = 10, Valid = True\<rparr>,
        Duration = \<lparr>Value = ''10s'', Valid = True\<rparr>,
        Linger = \<lparr>Value = False, Valid = True\<rparr>,
        AbortOnTaint = \<lparr>Value = False, Valid = True\<rparr>,
        Acceptance = \<lparr>Value = 0, Valid = True\<rparr>,
        MaxRedirects = \<lparr>Value = 0, Valid = True\<rparr>,
        Thresholds = \<lparr>Value = [], Valid = True\<rparr>\<rparr>) \<and>
   (\<exists>merged.
      actionRun_configs sample_env
        (Apply (actionRun_cliOptions sample_cc) (GetOptions sample_env ''simple'')) [] =
        Inr merged \<and>
      \<not> Valid (VUsMax merged) \<and> Value (VUs merged) = 10 \<and> Value (VUsMax merged) = 0)"
proof -
  let ?opts = "\<lparr>Paused = \<lparr>Value = False, Valid = True\<rparr>,
        VUs = \<lparr>Value = 10 :: int64, Valid = True\<rparr>,
        VUsMax = \<lparr>Value = 10 :: int64, Valid = True\<rparr>,
        Duration = \<lparr>Value = ''10s'', Valid = True\<rparr>,
        Linger = \<lparr>Value = False, Valid = True\<rparr>,
        AbortOnTaint = \<lparr>Value = False, Valid = True\<rparr>,
        Acceptance = \<lparr>Value = 0 :: float64, Valid = True\<rparr>,
        MaxRedirects = \<lparr>Value = 0 :: int64, Valid = True\<rparr>,
        Thresholds = \<lparr>Value = [], Valid = True\<rparr>\<rparr>"
  have run: "actionRun_options sample_env sample_cc = Inr (''simple'', ?opts)"
    by (simp add: run_defs sample_defs type_defs)
  from vusmax_default [OF run] obtain merged where
    cfg: "actionRun_configs sample_env
        (Apply (actionRun_cliOptions sample_cc) (GetOptions sample_env ''simple''))
        (flag_config sample_cc) = Inr merged" and
    vus: "Value (VUs ?opts) = Value (VUs merged)" and
    vmax: "Value (VUsMax ?opts) =
       (if Valid (VUsMax merged) then Value (VUsMax merged) else Value (VUs merged))"
    by blast
  have files: "flag_config sample_cc = []"
    by (simp add: sample_cc_def)
  have invalid: "\<not> Valid (VUsMax merged)" and zero: "Value (VUsMax merged) = 0"
    using cfg unfolding files
    by (auto simp add: actionRun_cliOptions_def Apply_def sample_defs)
  from run cfg vus invalid zero show ?thesis
    unfolding files by auto
qed

end
